theory Spec2Isabelle
  imports Main
begin

section \<open>Python values seen by the worker reporter\<close>

text \<open>
  The development embeds \<^verbatim>\<open>src/twisted/trial/_dist/workerreporter.py\<close>: the class
  \<^verbatim>\<open>ReportingResults\<close> and the class \<^verbatim>\<open>WorkerReporter\<close>. Python names that begin
  with an underscore lose it (\<^verbatim>\<open>_call\<close> is \<open>call\<close>, \<^verbatim>\<open>_getFrames\<close> is \<open>getFrames\<close>);
  the methods of \<^verbatim>\<open>ReportingResults\<close> carry the prefix \<open>RR_\<close>.

  Exceptions are values: an operation returns \<open>(exn + 'a) \<times> heap\<close>, the left injection
  being a raised exception. The heap is returned in both cases, since a Python method
  that raises keeps the mutations it made before raising.
\<close>

datatype exn = ValueError string | AttributeError string | OtherError string

text \<open>
  The Python objects that reach the reporter as exception values, exception types and
  skip reasons. Python does not check which one is passed where, so one type holds them
  all: an exception instance (module and name of its class, and its \<^verbatim>\<open>str()\<close>), a class
  object (module and name), and a plain string.
\<close>

datatype pyobj =
    ExcInstance string string string
  | ExcClass string string
  | PyStr string

text \<open>
  \<^verbatim>\<open>str(obj)\<close>. A class defined at the top level of its module, whose qualified name is
  its name, prints as \<^verbatim>\<open><class 'module.Name'>\<close>, without the module when it is \<^verbatim>\<open>builtins\<close>.
\<close>

fun py_str :: "pyobj \<Rightarrow> string" where
  "py_str (ExcInstance m n s) = s"
| "py_str (ExcClass m n) =
     (if m = ''builtins'' then ''<class '' @ [CHR 0x27] @ n @ [CHR 0x27] @ ''>''
      else ''<class '' @ [CHR 0x27] @ m @ ''.'' @ n @ [CHR 0x27] @ ''>'')"
| "py_str (PyStr s) = s"

text \<open>\<^verbatim>\<open>str(n)\<close> for an integer: its decimal digits, with a minus sign when negative.\<close>

definition digit_char :: "nat \<Rightarrow> char" where
  "digit_char d = ''0123456789'' ! d"

fun str_nat :: "nat \<Rightarrow> string" where
  "str_nat n = (if n < 10 then [digit_char n] else str_nat (n div 10) @ [digit_char (n mod 10)])"

declare str_nat.simps [simp del]

definition str_int :: "int \<Rightarrow> string" where
  "str_int i = (if i < 0 then CHR ''-'' # str_nat (nat (- i)) else str_nat (nat i))"

text \<open>
  A frame of a failure: the code object's name, its file name and the line number. (The
  frames of \<^verbatim>\<open>twisted.python.failure.Failure\<close> also carry the local and global variables;
  the reporter reads the first three components only.) A traceback is the list of frames
  it yields, innermost last.
\<close>

type_synonym frame = "string \<times> string \<times> int"
type_synonym traceback = "frame list"

text \<open>
  Modelled from the spec: the class \<^verbatim>\<open>twisted.python.failure.Failure\<close> is not part of the
  sources at hand. A wrapped failure exposes a value (from which the message is taken),
  a type and frames in capture order (spec 3 and 4.1). Its constructor is called as
  \<^verbatim>\<open>Failure(exc_value, exc_type, exc_tb)\<close>.
\<close>

record failure =
  fvalue :: pyobj
  ftype :: pyobj
  fframes :: "frame list"

definition Failure :: "pyobj \<Rightarrow> pyobj \<Rightarrow> traceback \<Rightarrow> failure" where
  "Failure exc_value exc_type exc_tb = \<lparr>fvalue = exc_value, ftype = exc_type, fframes = exc_tb\<rparr>"

text \<open>
  Modelled from the spec: \<^verbatim>\<open>Failure.getErrorMessage\<close>, the human-readable message of the
  failure: the string form of its value. It does not raise.
\<close>

definition getErrorMessage :: "failure \<Rightarrow> string" where
  "getErrorMessage f = py_str (fvalue f)"

text \<open>
  Modelled from the spec: \<^verbatim>\<open>twisted.python.reflect.qual\<close>, the module-qualified name of a
  class, \<^verbatim>\<open>c.__module__ + "." + c.__name__\<close>. Only a class has a \<^verbatim>\<open>__name__\<close>; on any other
  object the attribute lookup raises.
\<close>

fun qual :: "pyobj \<Rightarrow> exn + string" where
  "qual (ExcClass m n) = Inr (m @ ''.'' @ n)"
| "qual (ExcInstance m n s) = Inl (AttributeError ''__name__'')"
| "qual (PyStr s) = Inl (AttributeError ''__module__'')"

text \<open>
  The argument of \<^verbatim>\<open>addError\<close> and \<^verbatim>\<open>addFailure\<close>, \<^verbatim>\<open>Union[Failure, ExcInfo]\<close>: a 3-tuple, whose
  components are kept by position (\<^verbatim>\<open>error[0]\<close>, \<^verbatim>\<open>error[1]\<close>, \<^verbatim>\<open>error[2]\<close>), or a failure.
\<close>

datatype error_arg = ExcInfo pyobj pyobj traceback | Wrapped failure

section \<open>Failure normalisation\<close>

text \<open>\<^verbatim>\<open>WorkerReporter._getFailure\<close>.\<close>

fun getFailure :: "error_arg \<Rightarrow> failure" where
  "getFailure (ExcInfo e0 e1 e2) = Failure e1 e0 e2"
| "getFailure (Wrapped f) = f"

text \<open>
  \<^verbatim>\<open>WorkerReporter._getFrames\<close>: the loop starts from the empty list and extends it by three
  entries for each frame.
\<close>

definition getFrames :: "failure \<Rightarrow> string list" where
  "getFrames f =
     foldl (\<lambda>acc fr. acc @ [fst fr, fst (snd fr), str_int (snd (snd fr))]) [] (fframes f)"

text \<open>
  The four statements that \<^verbatim>\<open>_addErrorFallible\<close> (lines 182 to 185) and \<^verbatim>\<open>addFailure\<close> (lines
  208 to 211) share: wrap the argument, take the message, the qualified name of the type
  and the flattened frames. \<^verbatim>\<open>qual\<close> is the one step that can raise.
\<close>

definition normalize :: "error_arg \<Rightarrow> exn + (string \<times> string \<times> string list)" where
  "normalize errorObj =
     (let failure = getFailure errorObj;
          errorStr = getErrorMessage failure
      in case qual (ftype failure) of
           Inl e \<Rightarrow> Inl e
         | Inr errorClass \<Rightarrow> Inr (errorStr, errorClass, getFrames failure))"

section \<open>Objects and references\<close>

text \<open>
  A test case, of which the reporter reads \<^verbatim>\<open>test.id()\<close>; a \<^verbatim>\<open>Todo\<close>, of which it reads
  \<^verbatim>\<open>todo.reason\<close>.
\<close>

datatype test = TestCase string

fun test_id :: "test \<Rightarrow> string" where
  "test_id (TestCase name) = name"

datatype todo = Todo string

fun todo_reason :: "todo \<Rightarrow> string" where
  "todo_reason (Todo r) = r"

text \<open>
  The commands of \<^verbatim>\<open>managercommands\<close> with their named arguments, in the order in which the
  reporter writes them: \<^verbatim>\<open>AddError(testName, error, errorClass, frames)\<close>,
  \<^verbatim>\<open>AddFailure(testName, fail, failClass, frames)\<close>, \<^verbatim>\<open>AddSkip(testName, reason)\<close>,
  \<^verbatim>\<open>AddExpectedFailure(testName, error, todo)\<close>, \<^verbatim>\<open>AddUnexpectedSuccess(testName, todo)\<close>.
\<close>

datatype command =
    AddSuccess string
  | AddError string string string "string list"
  | AddFailure string string string "string list"
  | AddSkip string string
  | AddExpectedFailure string string string
  | AddUnexpectedSuccess string string

text \<open>
  Modelled from the spec: \<^verbatim>\<open>twisted.internet.defer.Deferred\<close> and \<^verbatim>\<open>maybeDeferred\<close> are not part
  of the sources at hand. A handle stands for one relay attempt; it is either the handle
  the channel returned, or a failure made from an exception that the callable raised
  synchronously (spec 4.3, step 3: such an exception is captured, never thrown inline).
\<close>

datatype 'd deferred = Returned 'd | Failed exn

text \<open>
  Objects live in a heap and are named by references. \<^verbatim>\<open>ReportingResults\<close> holds a reference
  to its reporter and a reference to its list; the reporter holds a reference to the
  active \<^verbatim>\<open>ReportingResults\<close>, or \<^verbatim>\<open>None\<close>. Every reference denotes an object; the two
  counters give the next reference that the constructors hand out.

  The AMP protocol object of a reporter is kept as the sequence of calls made to its
  \<^verbatim>\<open>callRemote\<close>, oldest first. What the channel answers is a parameter of the model.
\<close>

type_synonym rid = nat
type_synonym sid = nat
type_synonym lid = nat

record 'b reporter =
  bookkeeping :: 'b
  ampProtocol :: "command list"
  reporting :: "sid option"

record session =
  RR_reporter :: rid
  RR_results :: lid

record ('b, 'd) heap =
  reporter_at :: "rid \<Rightarrow> 'b reporter"
  session_at :: "sid \<Rightarrow> session"
  list_at :: "lid \<Rightarrow> 'd deferred list"
  next_session :: sid
  next_list :: lid

text \<open>
  The outcome methods with their arguments. The base class \<^verbatim>\<open>TestResult\<close> is not part of the
  sources at hand: its six methods are the parameter \<open>base\<close>, which maps a call and the
  bookkeeping to the new bookkeeping, and may raise. The channel is the parameter \<open>amp\<close>:
  from the calls made so far and the command, the handle it returns or the exception it
  raises.
\<close>

datatype invocation =
    CallAddSuccess test
  | CallAddError test error_arg
  | CallAddFailure test error_arg
  | CallAddSkip test pyobj
  | CallAddExpectedFailure test failure "todo option"
  | CallAddUnexpectedSuccess test "todo option"

type_synonym 'b base = "invocation \<Rightarrow> 'b \<Rightarrow> (exn + unit) \<times> 'b"
type_synonym 'd amp = "command list \<Rightarrow> command \<Rightarrow> exn + 'd"

section \<open>ReportingResults\<close>

text \<open>The constructor that \<^verbatim>\<open>attrs\<close> generates: \<^verbatim>\<open>_results\<close> is a new empty list.\<close>

definition ReportingResults :: "rid \<Rightarrow> ('b, 'd) heap \<Rightarrow> sid \<times> ('b, 'd) heap" where
  "ReportingResults r h =
     (let l = next_list h;
          h1 = h\<lparr>list_at := (list_at h)(l := []), next_list := Suc l\<rparr>;
          s = next_session h1
      in (s, h1\<lparr>session_at := (session_at h1)(s := \<lparr>RR_reporter = r, RR_results = l\<rparr>),
                next_session := Suc s\<rparr>))"

text \<open>\<^verbatim>\<open>__enter__\<close> returns the list itself, that is, the reference to it.\<close>

definition RR_enter :: "sid \<Rightarrow> ('b, 'd) heap \<Rightarrow> lid" where
  "RR_enter self h = RR_results (session_at h self)"

text \<open>
  \<^verbatim>\<open>__exit__\<close>; its three arguments, here the exception that left the block if any, are not
  read.
\<close>

definition RR_exit :: "sid \<Rightarrow> exn option \<Rightarrow> ('b, 'd) heap \<Rightarrow> bool \<times> ('b, 'd) heap" where
  "RR_exit self exc h =
     (let r = RR_reporter (session_at h self)
      in (False, h\<lparr>reporter_at := (reporter_at h)(r := (reporter_at h r)\<lparr>reporting := None\<rparr>)\<rparr>))"

definition RR_record :: "sid \<Rightarrow> 'd deferred \<Rightarrow> ('b, 'd) heap \<Rightarrow> ('b, 'd) heap" where
  "RR_record self result h =
     (let l = RR_results (session_at h self)
      in h\<lparr>list_at := (list_at h)(l := list_at h l @ [result])\<rparr>)"

text \<open>
  Python's \<^verbatim>\<open>with session as results: body\<close>: enter, run the body, call \<^verbatim>\<open>__exit__\<close> on every
  way out; an exception of the body is raised again unless \<^verbatim>\<open>__exit__\<close> returned a true
  value.
\<close>

definition with_scope ::
  "sid \<Rightarrow> (lid \<Rightarrow> ('b, 'd) heap \<Rightarrow> (exn + unit) \<times> ('b, 'd) heap) \<Rightarrow> ('b, 'd) heap \<Rightarrow>
   (exn + unit) \<times> ('b, 'd) heap" where
  "with_scope self body h =
     (let results = RR_enter self h;
          (r, h1) = body results h;
          (suppress, h2) = RR_exit self (case r of Inl e \<Rightarrow> Some e | Inr _ \<Rightarrow> None) h1
      in case r of
           Inl e \<Rightarrow> if suppress then (Inr (), h2) else (Inl e, h2)
         | Inr v \<Rightarrow> (Inr v, h2))"

section \<open>WorkerReporter\<close>

definition DEFAULT_TODO :: string where
  "DEFAULT_TODO = ''Test expected to fail''"

definition gatherReportingResults :: "rid \<Rightarrow> ('b, 'd) heap \<Rightarrow> sid \<times> ('b, 'd) heap" where
  "gatherReportingResults self h =
     (let (s, h1) = ReportingResults self h
      in (s, h1\<lparr>reporter_at := (reporter_at h1)(self := (reporter_at h1 self)\<lparr>reporting := Some s\<rparr>)\<rparr>))"

text \<open>\<^verbatim>\<open>self.ampProtocol.callRemote(command, ...)\<close>: the call is made, then answered.\<close>

definition callRemote ::
  "'d amp \<Rightarrow> rid \<Rightarrow> command \<Rightarrow> ('b, 'd) heap \<Rightarrow> (exn + 'd) \<times> ('b, 'd) heap" where
  "callRemote amp self cmd h =
     (let rep = reporter_at h self
      in (amp (ampProtocol rep) cmd,
          h\<lparr>reporter_at := (reporter_at h)(self := rep\<lparr>ampProtocol := ampProtocol rep @ [cmd]\<rparr>)\<rparr>))"

text \<open>
  Modelled from the spec: \<^verbatim>\<open>twisted.internet.defer.maybeDeferred\<close> calls \<open>f\<close>; what \<open>f\<close> returns
  is the handle, and an exception that \<open>f\<close> raises becomes a failed handle (spec 4.3,
  step 3). It raises nothing itself.
\<close>

definition maybeDeferred ::
  "(('b, 'd) heap \<Rightarrow> (exn + 'd) \<times> ('b, 'd) heap) \<Rightarrow> ('b, 'd) heap \<Rightarrow>
   'd deferred \<times> ('b, 'd) heap" where
  "maybeDeferred f h =
     (case f h of
        (Inl e, h') \<Rightarrow> (Failed e, h')
      | (Inr d, h') \<Rightarrow> (Returned d, h'))"

text \<open>
  \<^verbatim>\<open>WorkerReporter._call\<close>. Python looks \<^verbatim>\<open>self._reporting.record\<close> up before it evaluates the
  argument \<^verbatim>\<open>maybeDeferred(f)\<close>.
\<close>

definition call ::
  "rid \<Rightarrow> (('b, 'd) heap \<Rightarrow> (exn + 'd) \<times> ('b, 'd) heap) \<Rightarrow> ('b, 'd) heap \<Rightarrow>
   (exn + unit) \<times> ('b, 'd) heap" where
  "call self f h =
     (case reporting (reporter_at h self) of
        Some s \<Rightarrow> (let (d, h') = maybeDeferred f h in (Inr (), RR_record s d h'))
      | None \<Rightarrow>
          (Inl (ValueError ''Cannot call command outside of reporting context manager.''), h))"

text \<open>\<^verbatim>\<open>super().addX(...)\<close>: the base method works on the bookkeeping of the reporter.\<close>

definition super ::
  "'b base \<Rightarrow> rid \<Rightarrow> invocation \<Rightarrow> ('b, 'd) heap \<Rightarrow> (exn + unit) \<times> ('b, 'd) heap" where
  "super base self oc h =
     (let rep = reporter_at h self;
          (r, b) = base oc (bookkeeping rep)
      in (r, h\<lparr>reporter_at := (reporter_at h)(self := rep\<lparr>bookkeeping := b\<rparr>)\<rparr>))"

definition addSuccess ::
  "'b base \<Rightarrow> 'd amp \<Rightarrow> rid \<Rightarrow> test \<Rightarrow> ('b, 'd) heap \<Rightarrow> (exn + unit) \<times> ('b, 'd) heap" where
  "addSuccess base amp self test h =
     (case super base self (CallAddSuccess test) h of
        (Inl e, h1) \<Rightarrow> (Inl e, h1)
      | (Inr _, h1) \<Rightarrow>
          (let testName = test_id test
           in call self (callRemote amp self (AddSuccess testName)) h1))"

definition addErrorFallible ::
  "'d amp \<Rightarrow> rid \<Rightarrow> string \<Rightarrow> error_arg \<Rightarrow> ('b, 'd) heap \<Rightarrow> (exn + 'd) \<times> ('b, 'd) heap" where
  "addErrorFallible amp self testName errorObj h =
     (case normalize errorObj of
        Inl e \<Rightarrow> (Inl e, h)
      | Inr (errorStr, errorClass, frames) \<Rightarrow>
          callRemote amp self (AddError testName errorStr errorClass frames) h)"

definition addError ::
  "'b base \<Rightarrow> 'd amp \<Rightarrow> rid \<Rightarrow> test \<Rightarrow> error_arg \<Rightarrow> ('b, 'd) heap \<Rightarrow>
   (exn + unit) \<times> ('b, 'd) heap" where
  "addError base amp self test error h =
     (case super base self (CallAddError test error) h of
        (Inl e, h1) \<Rightarrow> (Inl e, h1)
      | (Inr _, h1) \<Rightarrow>
          (let testName = test_id test
           in call self (addErrorFallible amp self testName error) h1))"

text \<open>In \<^verbatim>\<open>addFailure\<close> the failure is normalised before \<^verbatim>\<open>_call\<close> is reached.\<close>

definition addFailure ::
  "'b base \<Rightarrow> 'd amp \<Rightarrow> rid \<Rightarrow> test \<Rightarrow> error_arg \<Rightarrow> ('b, 'd) heap \<Rightarrow>
   (exn + unit) \<times> ('b, 'd) heap" where
  "addFailure base amp self test fail h =
     (case super base self (CallAddFailure test fail) h of
        (Inl e, h1) \<Rightarrow> (Inl e, h1)
      | (Inr _, h1) \<Rightarrow>
          (let testName = test_id test
           in case normalize fail of
                Inl e \<Rightarrow> (Inl e, h1)
              | Inr (fail', failClass, frames) \<Rightarrow>
                  call self (callRemote amp self (AddFailure testName fail' failClass frames)) h1))"

definition addSkip ::
  "'b base \<Rightarrow> 'd amp \<Rightarrow> rid \<Rightarrow> test \<Rightarrow> pyobj \<Rightarrow> ('b, 'd) heap \<Rightarrow>
   (exn + unit) \<times> ('b, 'd) heap" where
  "addSkip base amp self test reason h =
     (case super base self (CallAddSkip test reason) h of
        (Inl e, h1) \<Rightarrow> (Inl e, h1)
      | (Inr _, h1) \<Rightarrow>
          (let reason' = py_str reason;
               testName = test_id test
           in call self (callRemote amp self (AddSkip testName reason')) h1))"

definition getTodoReason :: "todo option \<Rightarrow> string" where
  "getTodoReason todo = (case todo of None \<Rightarrow> DEFAULT_TODO | Some t \<Rightarrow> todo_reason t)"

definition addExpectedFailure ::
  "'b base \<Rightarrow> 'd amp \<Rightarrow> rid \<Rightarrow> test \<Rightarrow> failure \<Rightarrow> todo option \<Rightarrow> ('b, 'd) heap \<Rightarrow>
   (exn + unit) \<times> ('b, 'd) heap" where
  "addExpectedFailure base amp self test error todo h =
     (case super base self (CallAddExpectedFailure test error todo) h of
        (Inl e, h1) \<Rightarrow> (Inl e, h1)
      | (Inr _, h1) \<Rightarrow>
          (let errorMessage = getErrorMessage error;
               testName = test_id test
           in call self
                (\<lambda>h'. callRemote amp self
                   (AddExpectedFailure testName errorMessage (getTodoReason todo)) h') h1))"

definition addUnexpectedSuccess ::
  "'b base \<Rightarrow> 'd amp \<Rightarrow> rid \<Rightarrow> test \<Rightarrow> todo option \<Rightarrow> ('b, 'd) heap \<Rightarrow>
   (exn + unit) \<times> ('b, 'd) heap" where
  "addUnexpectedSuccess base amp self test todo h =
     (case super base self (CallAddUnexpectedSuccess test todo) h of
        (Inl e, h1) \<Rightarrow> (Inl e, h1)
      | (Inr _, h1) \<Rightarrow>
          (let testName = test_id test
           in call self
                (\<lambda>h'. callRemote amp self
                   (AddUnexpectedSuccess testName (getTodoReason todo)) h') h1))"

text \<open>One of the six outcome methods, chosen by the call.\<close>

fun invoke ::
  "'b base \<Rightarrow> 'd amp \<Rightarrow> rid \<Rightarrow> invocation \<Rightarrow> ('b, 'd) heap \<Rightarrow> (exn + unit) \<times> ('b, 'd) heap" where
  "invoke base amp self (CallAddSuccess test) h = addSuccess base amp self test h"
| "invoke base amp self (CallAddError test error) h = addError base amp self test error h"
| "invoke base amp self (CallAddFailure test fail) h = addFailure base amp self test fail h"
| "invoke base amp self (CallAddSkip test r) h = addSkip base amp self test r h"
| "invoke base amp self (CallAddExpectedFailure test error todo) h =
     addExpectedFailure base amp self test error todo h"
| "invoke base amp self (CallAddUnexpectedSuccess test todo) h =
     addUnexpectedSuccess base amp self test todo h"

section \<open>What the specification says of the six methods\<close>

text \<open>
  The payload of each outcome as the specification lists it (spec 4.3, step 2), as the
  command that carries it. Building it fails when the normalisation of the failure
  fails. This definition follows the specification; the theorems below compare the
  methods with it.
\<close>

fun spec_payload :: "invocation \<Rightarrow> exn + command" where
  "spec_payload (CallAddSuccess test) = Inr (AddSuccess (test_id test))"
| "spec_payload (CallAddError test error) =
     (case normalize error of
        Inl e \<Rightarrow> Inl e
      | Inr (message, typeName, frames) \<Rightarrow> Inr (AddError (test_id test) message typeName frames))"
| "spec_payload (CallAddFailure test fail) =
     (case normalize fail of
        Inl e \<Rightarrow> Inl e
      | Inr (message, typeName, frames) \<Rightarrow>
          Inr (AddFailure (test_id test) message typeName frames))"
| "spec_payload (CallAddSkip test r) = Inr (AddSkip (test_id test) (py_str r))"
| "spec_payload (CallAddExpectedFailure test error todo) =
     Inr (AddExpectedFailure (test_id test) (getErrorMessage error)
            (case todo of None \<Rightarrow> ''Test expected to fail'' | Some t \<Rightarrow> todo_reason t))"
| "spec_payload (CallAddUnexpectedSuccess test todo) =
     Inr (AddUnexpectedSuccess (test_id test)
            (case todo of None \<Rightarrow> ''Test expected to fail'' | Some t \<Rightarrow> todo_reason t))"

text \<open>
  The handle that stands for the relay of a payload: the channel's answer, or the failure
  made from the exception raised while building the payload or issuing the call.
\<close>

definition spec_handle :: "'d amp \<Rightarrow> command list \<Rightarrow> exn + command \<Rightarrow> 'd deferred" where
  "spec_handle amp sent p =
     (case p of
        Inl e \<Rightarrow> Failed e
      | Inr cmd \<Rightarrow> (case amp sent cmd of Inl e \<Rightarrow> Failed e | Inr d \<Rightarrow> Returned d))"

definition usage_error :: exn where
  "usage_error = ValueError ''Cannot call command outside of reporting context manager.''"

text \<open>
  A call gets as far as \<^verbatim>\<open>_call\<close> when the statements before it raise nothing: the base
  method returns, and in \<^verbatim>\<open>addFailure\<close>, which normalises the failure on the way, the
  normalisation raises nothing.
\<close>

fun normalizes_first :: "invocation \<Rightarrow> bool" where
  "normalizes_first (CallAddFailure test fail) = True"
| "normalizes_first _ = False"

definition reaches_call :: "'b base \<Rightarrow> 'b \<Rightarrow> invocation \<Rightarrow> bool" where
  "reaches_call base b oc =
     (fst (base oc b) = Inr () \<and>
      (if normalizes_first oc then (case spec_payload oc of Inl e \<Rightarrow> False | Inr c \<Rightarrow> True)
       else True))"

section \<open>Runs of session operations\<close>

text \<open>
  The three methods of \<^verbatim>\<open>ReportingResults\<close> as operations, each on some session, and a run of
  them in order.
\<close>

datatype 'd session_op = OpEnter | OpExit "exn option" | OpRecord "'d deferred"

fun session_step :: "sid \<times> 'd session_op \<Rightarrow> ('b, 'd) heap \<Rightarrow> ('b, 'd) heap" where
  "session_step (s, OpEnter) h = h"
| "session_step (s, OpExit exc) h = snd (RR_exit s exc h)"
| "session_step (s, OpRecord d) h = RR_record s d h"

definition session_run :: "(sid \<times> 'd session_op) list \<Rightarrow> ('b, 'd) heap \<Rightarrow> ('b, 'd) heap" where
  "session_run ops h = foldl (\<lambda>h' x. session_step x h') h ops"

text \<open>The handles that a run records into the list \<open>l\<close>, in the order of the run.\<close>

fun recorded_into :: "('b, 'd) heap \<Rightarrow> lid \<Rightarrow> (sid \<times> 'd session_op) list \<Rightarrow> 'd deferred list" where
  "recorded_into h l [] = []"
| "recorded_into h l ((s, OpRecord d) # ops) =
     (if RR_results (session_at h s) = l then d # recorded_into h l ops
      else recorded_into h l ops)"
| "recorded_into h l (_ # ops) = recorded_into h l ops"

text \<open>The handles that a sequence of operations records, in the order of the sequence.\<close>

fun handles :: "'d session_op list \<Rightarrow> 'd deferred list" where
  "handles [] = []"
| "handles (OpRecord d # ops) = d # handles ops"
| "handles (_ # ops) = handles ops"

section \<open>A small world to run the methods in\<close>

text \<open>
  A base reporter that keeps the calls it received, a channel that answers the n-th call
  with the handle n, a channel that refuses every call, and a heap with one reporter
  (reference 0) that has no session.
\<close>

definition base_log :: "invocation list base" where
  "base_log oc b = (Inr (), b @ [oc])"

definition amp_count :: "nat amp" where
  "amp_count sent cmd = Inr (length sent)"

definition amp_broken :: "nat amp" where
  "amp_broken sent cmd = Inl (OtherError ''connection lost'')"

definition heap0 :: "(invocation list, nat) heap" where
  "heap0 =
     \<lparr>reporter_at = (\<lambda>_. \<lparr>bookkeeping = [], ampProtocol = [], reporting = None\<rparr>),
      session_at = (\<lambda>_. \<lparr>RR_reporter = 0, RR_results = 0\<rparr>),
      list_at = (\<lambda>_. []),
      next_session = 0,
      next_list = 0\<rparr>"

definition boom :: pyobj where
  "boom = ExcInstance ''builtins'' ''ValueError'' ''boom''"

definition ValueError_class :: pyobj where
  "ValueError_class = ExcClass ''builtins'' ''ValueError''"

definition tb0 :: traceback where
  "tb0 = [(''test_two'', ''test_sample.py'', 12), (''helper'', ''util.py'', 7)]"

text \<open>The heap after the reporter 0 of \<open>heap0\<close> has opened a session.\<close>

definition heap1 :: "(invocation list, nat) heap" where
  "heap1 = snd (gatherReportingResults 0 heap0)"

text \<open>The heap after that reporter has then reported the success of a test.\<close>

definition heap2 :: "(invocation list, nat) heap" where
  "heap2 = snd (invoke base_log amp_count 0 (CallAddSuccess (TestCase ''t1'')) heap1)"

section \<open>Frame flattening\<close>

text \<open>The rendering of line numbers, on a few of them.\<close>

lemma str_int_examples:
  "str_int 0 = ''0''" "str_int 12 = ''12''" "str_int 407 = ''407''" "str_int (- 7) = ''-7''"
  by (simp_all add: str_int_def str_nat.simps digit_char_def)

lemma getFrames_loop:
  "foldl (\<lambda>acc fr. acc @ [fst fr, fst (snd fr), str_int (snd (snd fr))]) acc fs =
   acc @ concat (map (\<lambda>(name, file, line). [name, file, str_int line]) fs)"
  by (induction fs arbitrary: acc) (simp_all add: case_prod_beta)

text \<open>
  C5. For a failure with n frames, \<open>getFrames\<close> returns 3 * n strings: the name, the file
  name and the line number rendered as a string of each frame, frame after frame in the
  order of the failure's frame list.
\<close>

theorem getFrames_flat:
  "getFrames f = concat (map (\<lambda>(name, file, line). [name, file, str_int line]) (fframes f))
   \<and> length (getFrames f) = 3 * length (fframes f)"
proof -
  have eq: "getFrames f =
      concat (map (\<lambda>(name, file, line). [name, file, str_int line]) (fframes f))"
    by (simp add: getFrames_def getFrames_loop)
  have len: "length (concat (map (\<lambda>(name, file, line). [name, file, str_int line]) fs)) =
      3 * length fs" for fs :: "frame list"
    by (induction fs) (simp_all add: case_prod_beta)
  show ?thesis using eq len by simp
qed

section \<open>How the methods run\<close>

lemma super_eq:
  "super base self oc h =
     (fst (base oc (bookkeeping (reporter_at h self))),
      h\<lparr>reporter_at := (reporter_at h)(self :=
           (reporter_at h self)\<lparr>bookkeeping := snd (base oc (bookkeeping (reporter_at h self)))\<rparr>)\<rparr>)"
  by (simp add: super_def Let_def split: prod.split)

lemma super_reporting [simp]:
  "reporting (reporter_at (snd (super base self oc h)) r) = reporting (reporter_at h r)"
  by (simp add: super_eq)

lemma super_amp [simp]:
  "ampProtocol (reporter_at (snd (super base self oc h)) r) = ampProtocol (reporter_at h r)"
  by (simp add: super_eq)

lemma super_bookkeeping [simp]:
  "bookkeeping (reporter_at (snd (super base self oc h)) self) =
   snd (base oc (bookkeeping (reporter_at h self)))"
  by (simp add: super_eq)

lemma super_rest [simp]:
  "list_at (snd (super base self oc h)) = list_at h"
  "session_at (snd (super base self oc h)) = session_at h"
  "next_session (snd (super base self oc h)) = next_session h"
  "next_list (snd (super base self oc h)) = next_list h"
  "fst (super base self oc h) = fst (base oc (bookkeeping (reporter_at h self)))"
  by (simp_all add: super_eq)

lemma call_active:
  "reporting (reporter_at h self) = Some s \<Longrightarrow>
   call self (callRemote amp self cmd) h =
     (Inr (), RR_record s (spec_handle amp (ampProtocol (reporter_at h self)) (Inr cmd))
                (snd (callRemote amp self cmd h)))"
  by (simp add: call_def maybeDeferred_def callRemote_def spec_handle_def Let_def split: sum.split)

lemma call_none:
  "reporting (reporter_at h self) = None \<Longrightarrow> call self f h = (Inl usage_error, h)"
  by (simp add: call_def usage_error_def)

lemma addErrorFallible_cases:
  "normalize e = Inl x \<Longrightarrow> addErrorFallible amp self n e = (\<lambda>h. (Inl x, h))"
  "normalize e = Inr (m, c, fr) \<Longrightarrow>
   addErrorFallible amp self n e = callRemote amp self (AddError n m c fr)"
  by (rule ext, simp add: addErrorFallible_def)+

lemma invoke_split:
  "invoke base amp self oc h =
     (case fst (base oc (bookkeeping (reporter_at h self))) of
        Inl e \<Rightarrow> (Inl e, snd (super base self oc h))
      | Inr u \<Rightarrow>
         (case spec_payload oc of
            Inl e \<Rightarrow>
              if normalizes_first oc then (Inl e, snd (super base self oc h))
              else call self (\<lambda>h'. (Inl e, h')) (snd (super base self oc h))
          | Inr cmd \<Rightarrow> call self (callRemote amp self cmd) (snd (super base self oc h))))"
proof (cases oc)
  case (CallAddSuccess t)
  then show ?thesis
    by (simp add: addSuccess_def case_prod_unfold split: sum.split)
next
  case (CallAddError t e)
  then show ?thesis
    by (simp add: addError_def addErrorFallible_cases case_prod_unfold split: sum.split)
next
  case (CallAddFailure t e)
  then show ?thesis
    by (simp add: addFailure_def case_prod_unfold split: sum.split)
next
  case (CallAddSkip t r)
  then show ?thesis
    by (simp add: addSkip_def case_prod_unfold split: sum.split)
next
  case (CallAddExpectedFailure t f td)
  then show ?thesis
    by (simp add: addExpectedFailure_def getTodoReason_def DEFAULT_TODO_def case_prod_unfold split: sum.split option.split)
next
  case (CallAddUnexpectedSuccess t td)
  then show ?thesis
    by (simp add: addUnexpectedSuccess_def getTodoReason_def DEFAULT_TODO_def case_prod_unfold split: sum.split option.split)
qed


lemma RR_record_simps [simp]:
  "list_at (RR_record s d h) =
     (list_at h)(RR_results (session_at h s) := list_at h (RR_results (session_at h s)) @ [d])"
  "reporter_at (RR_record s d h) = reporter_at h"
  "session_at (RR_record s d h) = session_at h"
  "next_session (RR_record s d h) = next_session h"
  "next_list (RR_record s d h) = next_list h"
  by (simp_all add: RR_record_def Let_def)

lemma callRemote_simps [simp]:
  "fst (callRemote amp self cmd h) = amp (ampProtocol (reporter_at h self)) cmd"
  "list_at (snd (callRemote amp self cmd h)) = list_at h"
  "session_at (snd (callRemote amp self cmd h)) = session_at h"
  "next_session (snd (callRemote amp self cmd h)) = next_session h"
  "next_list (snd (callRemote amp self cmd h)) = next_list h"
  "bookkeeping (reporter_at (snd (callRemote amp self cmd h)) r) = bookkeeping (reporter_at h r)"
  "reporting (reporter_at (snd (callRemote amp self cmd h)) r) = reporting (reporter_at h r)"
  "ampProtocol (reporter_at (snd (callRemote amp self cmd h)) r) =
     (if r = self then ampProtocol (reporter_at h self) @ [cmd] else ampProtocol (reporter_at h r))"
  by (simp_all add: callRemote_def Let_def)

lemma call_raising:
  "reporting (reporter_at h self) = Some s \<Longrightarrow>
   call self (\<lambda>h'. (Inl e, h')) h = (Inr (), RR_record s (Failed e) h)"
  by (simp add: call_def maybeDeferred_def)

lemma invoke_no_session:
  assumes "reporting (reporter_at h self) = None"
  shows "invoke base amp self oc h =
     (case fst (base oc (bookkeeping (reporter_at h self))) of
        Inl e \<Rightarrow> (Inl e, snd (super base self oc h))
      | Inr u \<Rightarrow>
         (case spec_payload oc of
            Inl e \<Rightarrow>
              if normalizes_first oc then (Inl e, snd (super base self oc h))
              else (Inl usage_error, snd (super base self oc h))
          | Inr cmd \<Rightarrow> (Inl usage_error, snd (super base self oc h))))"
  using assms by (simp add: invoke_split call_none split: sum.split)

lemma invoke_active:
  assumes "reporting (reporter_at h self) = Some s"
  shows "invoke base amp self oc h =
     (case fst (base oc (bookkeeping (reporter_at h self))) of
        Inl e \<Rightarrow> (Inl e, snd (super base self oc h))
      | Inr u \<Rightarrow>
         (case spec_payload oc of
            Inl e \<Rightarrow>
              if normalizes_first oc then (Inl e, snd (super base self oc h))
              else (Inr (), RR_record s (Failed e) (snd (super base self oc h)))
          | Inr cmd \<Rightarrow>
              (Inr (), RR_record s (spec_handle amp (ampProtocol (reporter_at h self)) (Inr cmd))
                         (snd (callRemote amp self cmd (snd (super base self oc h)))))))"
  using assms by (simp add: invoke_split call_active call_raising split: sum.split)

lemma invoke_bookkeeping:
  "bookkeeping (reporter_at (snd (invoke base amp self oc h)) self) =
   snd (base oc (bookkeeping (reporter_at h self)))"
proof (cases "reporting (reporter_at h self)")
  case None
  then show ?thesis by (simp add: invoke_no_session split: sum.split)
next
  case (Some s)
  then show ?thesis by (simp add: invoke_active split: sum.split)
qed

lemma invoke_reaches:
  assumes "reporting (reporter_at h self) = Some s"
    and "reaches_call base (bookkeeping (reporter_at h self)) oc"
  shows "fst (invoke base amp self oc h) = Inr ()"
    and "list_at (snd (invoke base amp self oc h)) =
      (list_at h)(RR_results (session_at h s) :=
         list_at h (RR_results (session_at h s)) @
           [spec_handle amp (ampProtocol (reporter_at h self)) (spec_payload oc)])"
    and "session_at (snd (invoke base amp self oc h)) = session_at h"
    and "reporting (reporter_at (snd (invoke base amp self oc h)) r) = reporting (reporter_at h r)"
  using assms
  by (auto simp add: invoke_active reaches_call_def spec_handle_def split: sum.split if_splits)

lemma heap1_simps:
  "reporting (reporter_at heap1 0) = Some 0"
  "bookkeeping (reporter_at heap1 0) = []"
  "ampProtocol (reporter_at heap1 0) = []"
  "RR_results (session_at heap1 0) = 0"
  "RR_reporter (session_at heap1 0) = 0"
  "list_at heap1 = (\<lambda>_. [])"
  by (simp_all add: heap1_def gatherReportingResults_def ReportingResults_def heap0_def Let_def fun_eq_iff)

declare invoke.simps [simp del]

lemma RR_exit_simps [simp]:
  "fst (RR_exit s exc h) = False"
  "list_at (snd (RR_exit s exc h)) = list_at h"
  "session_at (snd (RR_exit s exc h)) = session_at h"
  "next_session (snd (RR_exit s exc h)) = next_session h"
  "next_list (snd (RR_exit s exc h)) = next_list h"
  "reporting (reporter_at (snd (RR_exit s exc h)) r) =
     (if r = RR_reporter (session_at h s) then None else reporting (reporter_at h r))"
  "bookkeeping (reporter_at (snd (RR_exit s exc h)) r) = bookkeeping (reporter_at h r)"
  "ampProtocol (reporter_at (snd (RR_exit s exc h)) r) = ampProtocol (reporter_at h r)"
  by (simp_all add: RR_exit_def Let_def)

lemma session_step_simps [simp]:
  "session_at (session_step x h) = session_at h"
  by (cases x, rename_tac s a, case_tac a) simp_all

lemma recorded_into_cong:
  "session_at h' = session_at h \<Longrightarrow> recorded_into h' l ops = recorded_into h l ops"
  by (induction h l ops rule: recorded_into.induct) simp_all

lemma session_step_list:
  "list_at (session_step x h) l = list_at h l @ recorded_into h l [x]"
  by (cases x, rename_tac s a, case_tac a) simp_all

lemma recorded_into_Cons:
  "recorded_into h l (x # ops) = recorded_into h l [x] @ recorded_into h l ops"
  by (cases x, rename_tac s a, case_tac a) simp_all

lemma session_run_Cons:
  "session_run (x # ops) h = session_run ops (session_step x h)"
  by (simp add: session_run_def)

lemma session_run_list:
  "list_at (session_run ops h) l = list_at h l @ recorded_into h l ops
   \<and> session_at (session_run ops h) = session_at h"
proof (induction ops arbitrary: h)
  case Nil
  then show ?case by (simp add: session_run_def)
next
  case (Cons x ops)
  have "recorded_into (session_step x h) l ops = recorded_into h l ops"
    by (rule recorded_into_cong) simp
  then show ?case
    using Cons [of "session_step x h"]
    by (simp only: session_run_Cons session_step_list recorded_into_Cons [of h l x ops]
          session_step_simps append_assoc simp_thms)
qed

lemma gather_simps [simp]:
  "fst (gatherReportingResults self h) = next_session h"
  "list_at (snd (gatherReportingResults self h)) = (list_at h)(next_list h := [])"
  "session_at (snd (gatherReportingResults self h)) =
     (session_at h)(next_session h := \<lparr>RR_reporter = self, RR_results = next_list h\<rparr>)"
  "next_session (snd (gatherReportingResults self h)) = Suc (next_session h)"
  "next_list (snd (gatherReportingResults self h)) = Suc (next_list h)"
  "reporting (reporter_at (snd (gatherReportingResults self h)) r) =
     (if r = self then Some (next_session h) else reporting (reporter_at h r))"
  "bookkeeping (reporter_at (snd (gatherReportingResults self h)) r) = bookkeeping (reporter_at h r)"
  "ampProtocol (reporter_at (snd (gatherReportingResults self h)) r) = ampProtocol (reporter_at h r)"
  by (simp_all add: gatherReportingResults_def ReportingResults_def Let_def)

lemma heap2_simps:
  "reporting (reporter_at heap2 0) = Some 0"
  "bookkeeping (reporter_at heap2 0) = [CallAddSuccess (TestCase ''t1'')]"
  "ampProtocol (reporter_at heap2 0) = [AddSuccess ''t1'']"
  "session_at heap2 0 = \<lparr>RR_reporter = 0, RR_results = 0\<rparr>"
  "list_at heap2 0 = [Returned 0]"
  "next_session heap2 = 1"
  "next_list heap2 = 1"
  by (simp_all add: heap2_def heap1_def invoke_active [where s = 0] base_log_def amp_count_def
        spec_handle_def heap0_def)

lemma bad_tuple_normalize:
  "normalize (ExcInfo boom ValueError_class tb0) = Inl (AttributeError ''__name__'')"
  by (simp add: normalize_def Failure_def boom_def Let_def)

lemma good_tuple_normalize:
  "normalize (ExcInfo ValueError_class boom tb0) =
     Inr (''boom'', ''builtins.ValueError'',
          [''test_two'', ''test_sample.py'', ''12'', ''helper'', ''util.py'', ''7''])"
  by (simp add: normalize_def Failure_def boom_def ValueError_class_def Let_def
        getErrorMessage_def getFrames_def tb0_def str_int_def str_nat.simps digit_char_def)

lemma invoke_not_reaching:
  assumes "\<not> reaches_call base (bookkeeping (reporter_at h self)) oc"
  shows "(\<exists>e. fst (invoke base amp self oc h) = Inl e)
     \<and> list_at (snd (invoke base amp self oc h)) = list_at h"
proof (cases "reporting (reporter_at h self)")
  case None
  then show ?thesis
    by (auto simp add: invoke_no_session split: sum.split)
next
  case (Some s)
  then show ?thesis
    using assms
    by (auto simp add: invoke_active reaches_call_def split: sum.splits if_splits)
qed

lemma recorded_into_own:
  "recorded_into h (RR_results (session_at h s)) (map (Pair s) sops) = handles sops"
  by (induction sops rule: handles.induct) simp_all

lemma session_run_own:
  "list_at (session_run (map (Pair s) sops) h) (RR_enter s h) =
     list_at h (RR_enter s h) @ handles sops"
  by (simp add: session_run_list RR_enter_def recorded_into_own)

lemma ReportingResults_simps [simp]:
  "fst (ReportingResults r h) = next_session h"
  "list_at (snd (ReportingResults r h)) = (list_at h)(next_list h := [])"
  "session_at (snd (ReportingResults r h)) =
     (session_at h)(next_session h := \<lparr>RR_reporter = r, RR_results = next_list h\<rparr>)"
  "reporter_at (snd (ReportingResults r h)) = reporter_at h"
  by (simp_all add: ReportingResults_def Let_def)

section \<open>The six outcome methods\<close>

text \<open>
  C1, as stated, fails: with no session active, \<^verbatim>\<open>addFailure\<close> normalises the failure
  before it reaches the session check of \<^verbatim>\<open>_call\<close>, so on a 3-tuple in the order of the
  alias \<^verbatim>\<open>ExcInfo\<close> (instance, type, traceback) it raises the exception of \<^verbatim>\<open>qual\<close>, not
  the usage error.
\<close>

theorem usage_error_preempted_counterexample:
  "reporting (reporter_at heap0 0) = None
   \<and> fst (addFailure base_log amp_count 0 (TestCase ''t2'')
            (ExcInfo boom ValueError_class tb0) heap0) = Inl (AttributeError ''__name__'')
   \<and> fst (addFailure base_log amp_count 0 (TestCase ''t2'')
            (ExcInfo boom ValueError_class tb0) heap0) \<noteq>
       Inl (ValueError ''Cannot call command outside of reporting context manager.'')"
proof -
  have none: "reporting (reporter_at heap0 0) = None"
    by (simp add: heap0_def)
  have "fst (invoke base_log amp_count 0
          (CallAddFailure (TestCase ''t2'') (ExcInfo boom ValueError_class tb0)) heap0) =
        Inl (AttributeError ''__name__'')"
    by (simp add: invoke_no_session [OF none] bad_tuple_normalize base_log_def)
  then show ?thesis
    using none by (simp add: invoke.simps)
qed

text \<open>
  C1, amended. Called while the reporter has no active session, each of the six outcome
  methods raises: the call returns an exception. That exception is the usage error of
  \<^verbatim>\<open>_call\<close> whenever the statements before \<^verbatim>\<open>_call\<close> raise nothing; otherwise it is the
  exception of the base method, or that of the normalisation in \<^verbatim>\<open>addFailure\<close>. In every
  case no call is made on the channel of any reporter, and no list of handles changes.
\<close>

theorem outcome_without_session:
  assumes "reporting (reporter_at h self) = None"
  shows "(\<exists>e. fst (invoke base amp self oc h) = Inl e)
     \<and> (reaches_call base (bookkeeping (reporter_at h self)) oc \<longrightarrow>
          fst (invoke base amp self oc h) = Inl usage_error)
     \<and> (\<forall>r. ampProtocol (reporter_at (snd (invoke base amp self oc h)) r) =
             ampProtocol (reporter_at h r))
     \<and> list_at (snd (invoke base amp self oc h)) = list_at h
     \<and> (\<forall>e. fst (base oc (bookkeeping (reporter_at h self))) = Inl e \<longrightarrow>
           fst (invoke base amp self oc h) = Inl e)
     \<and> (\<forall>e. fst (base oc (bookkeeping (reporter_at h self))) = Inr () \<longrightarrow>
           normalizes_first oc \<longrightarrow> spec_payload oc = Inl e \<longrightarrow>
           fst (invoke base amp self oc h) = Inl e)"
  using assms
  by (auto simp add: invoke_no_session reaches_call_def split: sum.split if_splits)

theorem outcome_without_session_witness:
  "reporting (reporter_at heap0 0) = None
   \<and> reaches_call base_log (bookkeeping (reporter_at heap0 0))
         (CallAddFailure (TestCase ''t2'') (ExcInfo ValueError_class boom tb0))
   \<and> fst (invoke base_log amp_count 0
             (CallAddFailure (TestCase ''t2'') (ExcInfo ValueError_class boom tb0)) heap0) =
       Inl (ValueError ''Cannot call command outside of reporting context manager.'')
   \<and> ampProtocol (reporter_at (snd (invoke base_log amp_count 0
             (CallAddFailure (TestCase ''t2'') (ExcInfo ValueError_class boom tb0)) heap0)) 0) = []
   \<and> list_at (snd (invoke base_log amp_count 0
             (CallAddFailure (TestCase ''t2'') (ExcInfo ValueError_class boom tb0)) heap0)) 0 = []"
proof -
  have none: "reporting (reporter_at heap0 0) = None"
    by (simp add: heap0_def)
  have reach: "reaches_call base_log (bookkeeping (reporter_at heap0 0))
      (CallAddFailure (TestCase ''t2'') (ExcInfo ValueError_class boom tb0))"
    by (simp add: reaches_call_def base_log_def normalize_def Failure_def ValueError_class_def Let_def)
  have empty: "ampProtocol (reporter_at heap0 0) = []" "list_at heap0 0 = []"
    by (simp_all add: heap0_def)
  show ?thesis
    using outcome_without_session [OF none, where base = base_log and amp = amp_count
        and oc = "CallAddFailure (TestCase ''t2'') (ExcInfo ValueError_class boom tb0)"]
      none reach empty
    by (simp add: usage_error_def)
qed

text \<open>
  C2, as stated, fails: with a session active and the base method returning, \<^verbatim>\<open>addFailure\<close>
  on a 3-tuple in the order of the alias \<^verbatim>\<open>ExcInfo\<close> updates the bookkeeping, then raises
  in the normalisation and appends no handle.
\<close>

theorem in_session_nothing_recorded_counterexample:
  "reporting (reporter_at heap1 0) = Some 0
   \<and> fst (base_log (CallAddFailure (TestCase ''t2'') (ExcInfo boom ValueError_class tb0))
          (bookkeeping (reporter_at heap1 0))) = Inr ()
   \<and> fst (invoke base_log amp_count 0
          (CallAddFailure (TestCase ''t2'') (ExcInfo boom ValueError_class tb0)) heap1) \<noteq> Inr ()
   \<and> bookkeeping (reporter_at (snd (invoke base_log amp_count 0
          (CallAddFailure (TestCase ''t2'') (ExcInfo boom ValueError_class tb0)) heap1)) 0) =
       [CallAddFailure (TestCase ''t2'') (ExcInfo boom ValueError_class tb0)]
   \<and> list_at (snd (invoke base_log amp_count 0
          (CallAddFailure (TestCase ''t2'') (ExcInfo boom ValueError_class tb0)) heap1)) =
       list_at heap1"
  by (simp add: invoke_active [where s = 0] heap1_simps bad_tuple_normalize base_log_def)

text \<open>
  C2, amended. Each of the six outcome methods leaves the bookkeeping as the base method
  leaves it, whatever the session state, since the base method runs first. With a
  session active, and the statements before \<^verbatim>\<open>_call\<close> raising nothing (the base method
  returns and, in \<^verbatim>\<open>addFailure\<close>, so does the normalisation), the method returns and the
  list of the active session is the old list with exactly one handle appended; no other
  list changes. When a statement before \<^verbatim>\<open>_call\<close> raises, the method raises and no list
  changes.
\<close>

theorem outcome_in_session:
  "bookkeeping (reporter_at (snd (invoke base amp self oc h)) self) =
     snd (base oc (bookkeeping (reporter_at h self)))
   \<and> (reporting (reporter_at h self) = Some s \<longrightarrow>
       reaches_call base (bookkeeping (reporter_at h self)) oc \<longrightarrow>
         fst (invoke base amp self oc h) = Inr ()
         \<and> (\<exists>d. list_at (snd (invoke base amp self oc h)) =
               (list_at h)(RR_results (session_at h s) :=
                  list_at h (RR_results (session_at h s)) @ [d])))
   \<and> (\<not> reaches_call base (bookkeeping (reporter_at h self)) oc \<longrightarrow>
         (\<exists>e. fst (invoke base amp self oc h) = Inl e)
         \<and> list_at (snd (invoke base amp self oc h)) = list_at h)"
proof -
  have a: "bookkeeping (reporter_at (snd (invoke base amp self oc h)) self) =
     snd (base oc (bookkeeping (reporter_at h self)))"
    by (rule invoke_bookkeeping)
  have b: "fst (invoke base amp self oc h) = Inr ()
         \<and> (\<exists>d. list_at (snd (invoke base amp self oc h)) =
               (list_at h)(RR_results (session_at h s) :=
                  list_at h (RR_results (session_at h s)) @ [d]))"
    if "reporting (reporter_at h self) = Some s"
      and "reaches_call base (bookkeeping (reporter_at h self)) oc"
    using that by (auto simp add: invoke_reaches)
  show ?thesis
    using a b invoke_not_reaching [of base h self oc amp] by blast
qed

theorem outcome_in_session_witness:
  "reporting (reporter_at heap1 0) = Some 0
   \<and> reaches_call base_log (bookkeeping (reporter_at heap1 0)) (CallAddSuccess (TestCase ''t1''))
   \<and> fst (invoke base_log amp_count 0 (CallAddSuccess (TestCase ''t1'')) heap1) = Inr ()
   \<and> bookkeeping (reporter_at (snd (invoke base_log amp_count 0
          (CallAddSuccess (TestCase ''t1'')) heap1)) 0) = [CallAddSuccess (TestCase ''t1'')]
   \<and> length (list_at (snd (invoke base_log amp_count 0
          (CallAddSuccess (TestCase ''t1'')) heap1)) 0) = 1
   \<and> reaches_call base_log (bookkeeping (reporter_at heap1 0))
        (CallAddFailure (TestCase ''t2'') (ExcInfo ValueError_class boom tb0))
   \<and> fst (invoke base_log amp_count 0
        (CallAddFailure (TestCase ''t2'') (ExcInfo ValueError_class boom tb0)) heap1) = Inr ()
   \<and> list_at (snd (invoke base_log amp_count 0
        (CallAddFailure (TestCase ''t2'') (ExcInfo ValueError_class boom tb0)) heap1)) 0 =
       [Returned 0]
   \<and> ampProtocol (reporter_at (snd (invoke base_log amp_count 0
        (CallAddFailure (TestCase ''t2'') (ExcInfo ValueError_class boom tb0)) heap1)) 0) =
       [AddFailure ''t2'' ''boom'' ''builtins.ValueError''
          [''test_two'', ''test_sample.py'', ''12'', ''helper'', ''util.py'', ''7'']]
   \<and> \<not> reaches_call base_log (bookkeeping (reporter_at heap1 0))
        (CallAddFailure (TestCase ''t2'') (ExcInfo boom ValueError_class tb0))
   \<and> list_at (snd (invoke base_log amp_count 0
        (CallAddFailure (TestCase ''t2'') (ExcInfo boom ValueError_class tb0)) heap1)) 0 = []"
proof -
  have reach: "reaches_call base_log (bookkeeping (reporter_at heap1 0))
      (CallAddSuccess (TestCase ''t1''))"
    "reaches_call base_log (bookkeeping (reporter_at heap1 0))
        (CallAddFailure (TestCase ''t2'') (ExcInfo ValueError_class boom tb0))"
    "\<not> reaches_call base_log (bookkeeping (reporter_at heap1 0))
        (CallAddFailure (TestCase ''t2'') (ExcInfo boom ValueError_class tb0))"
    by (simp_all add: reaches_call_def base_log_def good_tuple_normalize bad_tuple_normalize)
  have run: "list_at (snd (invoke base_log amp_count 0
        (CallAddFailure (TestCase ''t2'') (ExcInfo ValueError_class boom tb0)) heap1)) 0 =
       [Returned 0]"
    "ampProtocol (reporter_at (snd (invoke base_log amp_count 0
        (CallAddFailure (TestCase ''t2'') (ExcInfo ValueError_class boom tb0)) heap1)) 0) =
       [AddFailure ''t2'' ''boom'' ''builtins.ValueError''
          [''test_two'', ''test_sample.py'', ''12'', ''helper'', ''util.py'', ''7'']]"
    by (simp_all add: invoke_active [where s = 0] heap1_simps good_tuple_normalize base_log_def
          spec_handle_def amp_count_def)
  show ?thesis
    using outcome_in_session [where base = base_log and amp = amp_count and self = 0
        and oc = "CallAddSuccess (TestCase ''t1'')" and h = heap1 and s = 0]
      outcome_in_session [where base = base_log and amp = amp_count and self = 0
        and oc = "CallAddFailure (TestCase ''t2'') (ExcInfo ValueError_class boom tb0)"
        and h = heap1 and s = 0]
      outcome_in_session [where base = base_log and amp = amp_count and self = 0
        and oc = "CallAddFailure (TestCase ''t2'') (ExcInfo boom ValueError_class tb0)"
        and h = heap1 and s = 0]
      reach run
    by (auto simp add: heap1_simps base_log_def)
qed

text \<open>
  C3, as stated, fails: \<^verbatim>\<open>addFailure\<close> normalises the failure before it reaches \<^verbatim>\<open>_call\<close>,
  so an exception of the normalisation leaves the method and no handle is recorded. The
  input is a 3-tuple in the order of the alias \<^verbatim>\<open>ExcInfo\<close> (instance, type, traceback),
  on which \<^verbatim>\<open>qual\<close> meets an instance.
\<close>

theorem addFailure_raises_inline_counterexample:
  "reporting (reporter_at heap1 0) = Some 0
   \<and> normalize (ExcInfo boom ValueError_class tb0) = Inl (AttributeError ''__name__'')
   \<and> fst (addFailure base_log amp_count 0 (TestCase ''t2'')
             (ExcInfo boom ValueError_class tb0) heap1) = Inl (AttributeError ''__name__'')
   \<and> list_at (snd (addFailure base_log amp_count 0 (TestCase ''t2'')
             (ExcInfo boom ValueError_class tb0) heap1)) (RR_results (session_at heap1 0)) = []"
proof -
  have n: "normalize (ExcInfo boom ValueError_class tb0) = Inl (AttributeError ''__name__'')"
    by (simp add: normalize_def Failure_def boom_def Let_def)
  have "invoke base_log amp_count 0
          (CallAddFailure (TestCase ''t2'') (ExcInfo boom ValueError_class tb0)) heap1 =
        (Inl (AttributeError ''__name__''),
         snd (super base_log 0
           (CallAddFailure (TestCase ''t2'') (ExcInfo boom ValueError_class tb0)) heap1))"
    by (simp add: invoke_active [where s = 0] heap1_simps n base_log_def)
  then show ?thesis
    using n by (simp add: heap1_simps invoke.simps)
qed

text \<open>
  C3, amended. With a session active, once the statements before \<^verbatim>\<open>_call\<close> have raised
  nothing, the method returns and records exactly one handle, the one that stands for
  the relay of the payload: an exception raised by the callable given to \<^verbatim>\<open>_call\<close>, that
  is, by the normalisation in \<^verbatim>\<open>addError\<close> or by \<^verbatim>\<open>callRemote\<close> in any of the six, is the
  failure held by that handle. An exception of the normalisation in \<^verbatim>\<open>addFailure\<close> is
  raised to the caller and nothing is recorded.
\<close>

theorem callable_exceptions_captured:
  assumes "reporting (reporter_at h self) = Some s"
  shows "(reaches_call base (bookkeeping (reporter_at h self)) oc \<longrightarrow>
        fst (invoke base amp self oc h) = Inr ()
        \<and> list_at (snd (invoke base amp self oc h)) =
            (list_at h)(RR_results (session_at h s) :=
               list_at h (RR_results (session_at h s)) @
                 [spec_handle amp (ampProtocol (reporter_at h self)) (spec_payload oc)]))
     \<and> (\<forall>e. spec_payload oc = Inl e \<longrightarrow>
           spec_handle amp (ampProtocol (reporter_at h self)) (spec_payload oc) = Failed e)
     \<and> (\<forall>cmd e. spec_payload oc = Inr cmd \<longrightarrow>
           amp (ampProtocol (reporter_at h self)) cmd = Inl e \<longrightarrow>
           spec_handle amp (ampProtocol (reporter_at h self)) (spec_payload oc) = Failed e)
     \<and> (\<forall>e. fst (base oc (bookkeeping (reporter_at h self))) = Inr () \<longrightarrow>
           normalizes_first oc \<longrightarrow> spec_payload oc = Inl e \<longrightarrow>
           fst (invoke base amp self oc h) = Inl e
           \<and> list_at (snd (invoke base amp self oc h)) = list_at h)"
proof -
  have recorded: "fst (invoke base amp self oc h) = Inr ()
      \<and> list_at (snd (invoke base amp self oc h)) =
          (list_at h)(RR_results (session_at h s) :=
             list_at h (RR_results (session_at h s)) @
               [spec_handle amp (ampProtocol (reporter_at h self)) (spec_payload oc)])"
    if "reaches_call base (bookkeeping (reporter_at h self)) oc"
    using assms that by (simp add: invoke_reaches)
  have inline: "fst (invoke base amp self oc h) = Inl e
      \<and> list_at (snd (invoke base amp self oc h)) = list_at h"
    if "fst (base oc (bookkeeping (reporter_at h self))) = Inr ()"
      and "normalizes_first oc" and "spec_payload oc = Inl e" for e
    using assms that by (simp add: invoke_active)
  show ?thesis
    using recorded inline by (simp add: spec_handle_def)
qed

theorem callable_exceptions_captured_witness:
  "reporting (reporter_at heap1 0) = Some 0
   \<and> reaches_call base_log (bookkeeping (reporter_at heap1 0))
         (CallAddError (TestCase ''t2'') (ExcInfo boom ValueError_class tb0))
   \<and> spec_payload (CallAddError (TestCase ''t2'') (ExcInfo boom ValueError_class tb0)) =
         Inl (AttributeError ''__name__'')
   \<and> fst (invoke base_log amp_count 0
           (CallAddError (TestCase ''t2'') (ExcInfo boom ValueError_class tb0)) heap1) = Inr ()
   \<and> list_at (snd (invoke base_log amp_count 0
           (CallAddError (TestCase ''t2'') (ExcInfo boom ValueError_class tb0)) heap1)) 0 =
         [Failed (AttributeError ''__name__'')]
   \<and> reaches_call base_log (bookkeeping (reporter_at heap1 0)) (CallAddSuccess (TestCase ''t1''))
   \<and> fst (invoke base_log amp_broken 0 (CallAddSuccess (TestCase ''t1'')) heap1) = Inr ()
   \<and> list_at (snd (invoke base_log amp_broken 0 (CallAddSuccess (TestCase ''t1'')) heap1)) 0 =
         [Failed (OtherError ''connection lost'')]"
proof -
  have n: "normalize (ExcInfo boom ValueError_class tb0) = Inl (AttributeError ''__name__'')"
    by (simp add: normalize_def Failure_def boom_def Let_def)
  have reach: "reaches_call base_log (bookkeeping (reporter_at heap1 0))
      (CallAddError (TestCase ''t2'') (ExcInfo boom ValueError_class tb0))"
    "reaches_call base_log (bookkeeping (reporter_at heap1 0)) (CallAddSuccess (TestCase ''t1''))"
    by (simp_all add: reaches_call_def base_log_def)
  show ?thesis
    using callable_exceptions_captured [where base = base_log and amp = amp_count and self = 0
        and oc = "CallAddError (TestCase ''t2'') (ExcInfo boom ValueError_class tb0)"
        and h = heap1 and s = 0]
      callable_exceptions_captured [where base = base_log and amp = amp_broken and self = 0
        and oc = "CallAddSuccess (TestCase ''t1'')" and h = heap1 and s = 0]
      reach n
    by (simp add: heap1_simps spec_handle_def amp_broken_def)
qed

section \<open>Tuples and wrapped failures\<close>

text \<open>
  C4, as stated, fails: \<^verbatim>\<open>_getFailure\<close> passes \<^verbatim>\<open>error[1]\<close> as the value and \<^verbatim>\<open>error[0]\<close> as the
  type, so a tuple (instance, type, traceback) is wrapped with the two exchanged and does
  not normalise as the failure made from that instance and that type does.
\<close>

theorem exc_info_order_counterexample:
  "normalize (ExcInfo boom ValueError_class tb0) \<noteq>
   normalize (Wrapped (Failure boom ValueError_class tb0))"
  by (simp add: normalize_def Failure_def boom_def ValueError_class_def Let_def)

text \<open>
  C4, amended. A tuple in the order of \<^verbatim>\<open>sys.exc_info()\<close>, (type, instance, traceback), is
  wrapped into the failure of that instance, type and traceback, and normalises to the
  same message, type name and frames as that failure given already wrapped; so does the
  whole of \<^verbatim>\<open>_addErrorFallible\<close>.
\<close>

theorem exc_info_wrapped_first:
  "getFailure (ExcInfo exc_type exc_value exc_tb) = Failure exc_value exc_type exc_tb
   \<and> normalize (ExcInfo exc_type exc_value exc_tb) =
       normalize (Wrapped (Failure exc_value exc_type exc_tb))
   \<and> addErrorFallible amp self testName (ExcInfo exc_type exc_value exc_tb) h =
       addErrorFallible amp self testName (Wrapped (Failure exc_value exc_type exc_tb)) h"
  by (simp add: normalize_def addErrorFallible_def)

section \<open>Reasons of expected failures and unexpected successes\<close>

text \<open>
  C8. With a session active and the base method returning, \<^verbatim>\<open>addExpectedFailure\<close> and
  \<^verbatim>\<open>addUnexpectedSuccess\<close> make one call on the channel, whose \<^verbatim>\<open>todo\<close> argument is the
  string "Test expected to fail" when no todo is given and the reason of the todo
  otherwise.
\<close>

theorem todo_reason_relayed:
  assumes "reporting (reporter_at h self) = Some s"
  shows "(fst (base (CallAddExpectedFailure test error todo) (bookkeeping (reporter_at h self))) = Inr ()
       \<longrightarrow> ampProtocol (reporter_at (snd (addExpectedFailure base amp self test error todo h)) self) =
           ampProtocol (reporter_at h self) @
             [AddExpectedFailure (test_id test) (getErrorMessage error)
                (case todo of None \<Rightarrow> ''Test expected to fail'' | Some t \<Rightarrow> todo_reason t)])
     \<and> (fst (base (CallAddUnexpectedSuccess test todo) (bookkeeping (reporter_at h self))) = Inr ()
       \<longrightarrow> ampProtocol (reporter_at (snd (addUnexpectedSuccess base amp self test todo h)) self) =
           ampProtocol (reporter_at h self) @
             [AddUnexpectedSuccess (test_id test)
                (case todo of None \<Rightarrow> ''Test expected to fail'' | Some t \<Rightarrow> todo_reason t)])"
proof -
  have a: "ampProtocol (reporter_at (snd (invoke base amp self (CallAddExpectedFailure test error todo) h)) self) =
           ampProtocol (reporter_at h self) @
             [AddExpectedFailure (test_id test) (getErrorMessage error)
                (case todo of None \<Rightarrow> ''Test expected to fail'' | Some t \<Rightarrow> todo_reason t)]"
    if "fst (base (CallAddExpectedFailure test error todo) (bookkeeping (reporter_at h self))) = Inr ()"
    using assms that by (simp add: invoke_active)
  have b: "ampProtocol (reporter_at (snd (invoke base amp self (CallAddUnexpectedSuccess test todo) h)) self) =
           ampProtocol (reporter_at h self) @
             [AddUnexpectedSuccess (test_id test)
                (case todo of None \<Rightarrow> ''Test expected to fail'' | Some t \<Rightarrow> todo_reason t)]"
    if "fst (base (CallAddUnexpectedSuccess test todo) (bookkeeping (reporter_at h self))) = Inr ()"
    using assms that by (simp add: invoke_active)
  show ?thesis using a b by (simp add: invoke.simps)
qed

theorem todo_reason_relayed_witness:
  "reporting (reporter_at heap1 0) = Some 0
   \<and> fst (base_log (CallAddExpectedFailure (TestCase ''t3'') (Failure boom ValueError_class tb0) None)
          (bookkeeping (reporter_at heap1 0))) = Inr ()
   \<and> fst (base_log (CallAddUnexpectedSuccess (TestCase ''t3'') (Some (Todo ''flaky'')))
          (bookkeeping (reporter_at heap1 0))) = Inr ()
   \<and> ampProtocol (reporter_at (snd (addExpectedFailure base_log amp_count 0 (TestCase ''t3'')
          (Failure boom ValueError_class tb0) None heap1)) 0) =
        [AddExpectedFailure ''t3'' ''boom'' ''Test expected to fail'']
   \<and> ampProtocol (reporter_at (snd (addUnexpectedSuccess base_log amp_count 0 (TestCase ''t3'')
          (Some (Todo ''flaky'')) heap1)) 0) =
        [AddUnexpectedSuccess ''t3'' ''flaky'']"
  using todo_reason_relayed [where base = base_log and amp = amp_count and self = 0 and s = 0
      and h = heap1 and test = "TestCase ''t3''" and error = "Failure boom ValueError_class tb0"
      and todo = None]
    todo_reason_relayed [where base = base_log and amp = amp_count and self = 0 and s = 0
      and h = heap1 and test = "TestCase ''t3''" and error = "Failure boom ValueError_class tb0"
      and todo = "Some (Todo ''flaky'')"]
  by (simp add: heap1_simps base_log_def getErrorMessage_def Failure_def boom_def)

section \<open>Sessions\<close>

text \<open>
  C6. \<^verbatim>\<open>__exit__\<close> returns \<^verbatim>\<open>False\<close> and leaves the reporter of the session without an
  active session, whatever exception it is given. So a \<^verbatim>\<open>with\<close> block over a session ends
  as its body ends, raising what the body raised, and afterwards the reporter of the
  session has no active session.
\<close>

theorem exit_clears_and_never_suppresses:
  "fst (RR_exit s exc h) = False
   \<and> reporting (reporter_at (snd (RR_exit s exc h)) (RR_reporter (session_at h s))) = None
   \<and> fst (with_scope s body h) = fst (body (RR_enter s h) h)
   \<and> reporting (reporter_at (snd (with_scope s body h))
        (RR_reporter (session_at (snd (body (RR_enter s h) h)) s))) = None"
  by (simp add: with_scope_def Let_def case_prod_unfold split: sum.split)

text \<open>
  C7. After any run of \<^verbatim>\<open>__enter__\<close>, \<^verbatim>\<open>__exit__\<close> and \<^verbatim>\<open>record\<close> calls on any sessions, a list
  holds what it held before followed by the handles that the run recorded into it, in
  the order of the run: nothing is removed or reordered, and only \<^verbatim>\<open>record\<close> adds. The
  reference that \<^verbatim>\<open>__enter__\<close> returns is the same before and after the run, and it is
  the list that \<^verbatim>\<open>record\<close> appends to: after \<^verbatim>\<open>record\<close> the list obtained from \<^verbatim>\<open>__enter__\<close>
  is the old one with the handle at its end, and after any sequence of the three
  operations on a session, exits included, it is the old one followed by all the
  handles recorded, in the order of recording. For a session just constructed that is
  exactly the recorded handles.
\<close>

theorem results_append_only:
  "list_at (session_run ops h) l = list_at h l @ recorded_into h l ops
   \<and> RR_enter s (session_run ops h) = RR_enter s h
   \<and> list_at (RR_record s d h) (RR_enter s h) = list_at h (RR_enter s h) @ [d]
   \<and> list_at (session_run (map (Pair s) sops) h) (RR_enter s h) =
       list_at h (RR_enter s h) @ handles sops
   \<and> list_at (session_run (map (Pair (fst (ReportingResults r h))) sops)
         (snd (ReportingResults r h)))
        (RR_enter (fst (ReportingResults r h)) (snd (ReportingResults r h))) = handles sops"
proof -
  have fresh: "list_at (snd (ReportingResults r h))
      (RR_enter (fst (ReportingResults r h)) (snd (ReportingResults r h))) = []"
    by (simp add: RR_enter_def)
  show ?thesis
    using session_run_own [of s sops h]
      session_run_own [of "fst (ReportingResults r h)" sops "snd (ReportingResults r h)"] fresh
    by (simp add: session_run_list RR_enter_def)
qed



text \<open>
  C10, as stated, fails in its last part: after the exit of the first of two sessions
  the reporter has no session, yet \<^verbatim>\<open>addFailure\<close> on a 3-tuple in the order of the alias
  \<^verbatim>\<open>ExcInfo\<close> raises the exception of \<^verbatim>\<open>qual\<close>, not the usage error.
\<close>

theorem stale_exit_other_exception_counterexample:
  "reporting (reporter_at (snd (gatherReportingResults 0 (snd (gatherReportingResults 0 heap0)))) 0) =
     Some 1
   \<and> reporting (reporter_at (snd (RR_exit 0 None
        (snd (gatherReportingResults 0 (snd (gatherReportingResults 0 heap0)))))) 0) = None
   \<and> fst (addFailure base_log amp_count 0 (TestCase ''t2'') (ExcInfo boom ValueError_class tb0)
        (snd (RR_exit 0 None
           (snd (gatherReportingResults 0 (snd (gatherReportingResults 0 heap0))))))) =
       Inl (AttributeError ''__name__'')"
proof -
  let ?h3 = "snd (RR_exit 0 None
      (snd (gatherReportingResults 0 (snd (gatherReportingResults 0 heap0)))))"
  have n0: "next_session heap0 = 0"
    by (simp add: heap0_def)
  have none: "reporting (reporter_at ?h3 0) = None"
    by (simp add: n0)
  have "fst (invoke base_log amp_count 0
          (CallAddFailure (TestCase ''t2'') (ExcInfo boom ValueError_class tb0)) ?h3) =
        Inl (AttributeError ''__name__'')"
    by (simp add: invoke_no_session [OF none] bad_tuple_normalize base_log_def)
  then show ?thesis
    using none by (simp add: invoke.simps n0)
qed

text \<open>
  C10, amended. \<^verbatim>\<open>__exit__\<close> of a session clears the active session of the reporter the
  session is bound to, whichever session is active there. When a reporter opens a first
  and then a second session, the second is the active one; the exit of the first leaves
  the reporter without a session, and an outcome method called then raises and records
  nothing: it raises the usage error whenever the statements before \<^verbatim>\<open>_call\<close> raise
  nothing.
\<close>

theorem stale_exit_detaches:
  "(RR_reporter (session_at h s) = self \<longrightarrow>
      reporting (reporter_at (snd (RR_exit s exc h)) self) = None)
   \<and> (let (s1, h1) = gatherReportingResults self h;
           (s2, h2) = gatherReportingResults self h1;
           h3 = snd (RR_exit s1 exc h2)
       in s1 \<noteq> s2
          \<and> reporting (reporter_at h2 self) = Some s2
          \<and> reporting (reporter_at h3 self) = None
          \<and> (\<exists>e. fst (invoke base amp self oc h3) = Inl e)
          \<and> list_at (snd (invoke base amp self oc h3)) = list_at h3
          \<and> (reaches_call base (bookkeeping (reporter_at h3 self)) oc \<longrightarrow>
                fst (invoke base amp self oc h3) = Inl usage_error))"
proof -
  let ?h1 = "snd (gatherReportingResults self h)"
  let ?h2 = "snd (gatherReportingResults self ?h1)"
  let ?h3 = "snd (RR_exit (next_session h) exc ?h2)"
  have none: "reporting (reporter_at ?h3 self) = None"
    by simp
  have usage: "fst (invoke base amp self oc ?h3) = Inl usage_error"
    if "reaches_call base (bookkeeping (reporter_at ?h3 self)) oc"
    using that by (auto simp add: invoke_no_session [OF none] reaches_call_def split: sum.split if_splits)
  have raises: "\<exists>e. fst (invoke base amp self oc ?h3) = Inl e"
    by (auto simp add: invoke_no_session [OF none] split: sum.split)
  have lists: "list_at (snd (invoke base amp self oc ?h3)) = list_at ?h3"
    by (auto simp add: invoke_no_session [OF none] split: sum.split)
  show ?thesis
    using none usage raises lists by (simp add: case_prod_unfold Let_def)
qed

theorem stale_exit_detaches_witness:
  "RR_reporter (session_at heap2 0) = 0
   \<and> reporting (reporter_at heap2 0) = Some 0
   \<and> reporting (reporter_at (snd (RR_exit 0 None heap2)) 0) = None
   \<and> reaches_call base_log
        (bookkeeping (reporter_at (snd (RR_exit 0 None
           (snd (gatherReportingResults 0 (snd (gatherReportingResults 0 heap0)))))) 0))
        (CallAddSuccess (TestCase ''t5''))
   \<and> fst (invoke base_log amp_count 0 (CallAddSuccess (TestCase ''t5''))
        (snd (RR_exit 0 None
           (snd (gatherReportingResults 0 (snd (gatherReportingResults 0 heap0))))))) =
       Inl usage_error"
proof -
  have reach: "reaches_call base_log
        (bookkeeping (reporter_at (snd (RR_exit 0 None
           (snd (gatherReportingResults 0 (snd (gatherReportingResults 0 heap0)))))) 0))
        (CallAddSuccess (TestCase ''t5''))"
    by (simp add: reaches_call_def base_log_def)
  have n0: "next_session heap0 = 0"
    by (simp add: heap0_def)
  show ?thesis
    using stale_exit_detaches [where h = heap2 and s = 0 and self = 0 and exc = None]
      stale_exit_detaches [where h = heap0 and self = 0 and exc = None and base = base_log
        and amp = amp_count and oc = "CallAddSuccess (TestCase ''t5'')"]
      reach
    by (simp add: heap2_simps case_prod_unfold Let_def n0)
qed

end
